theory Spec2Isabelle
  imports Main "HOL-Library.Sublist"
begin

section \<open>JavaScript strings\<close>

text \<open>
  Text is modelled as \<^typ>\<open>string\<close>: a list of 8-bit characters, each standing for the
  code unit of the same number. \<open>s.length\<close> is \<^const>\<open>length\<close>,
  \<open>s.substring(0, n)\<close> is \<^term>\<open>take n s\<close>, \<open>s.startsWith(p)\<close> is
  \<^term>\<open>prefix p s\<close>, \<open>s.includes(p)\<close> is \<^term>\<open>sublist p s\<close> and
  \<open>a + b\<close> is \<^term>\<open>a @ b\<close>.
\<close>

text \<open>
  \<open>String.prototype.trim\<close> removes white space and line terminators from both ends. Below
  U+0100 these are TAB, LF, VT, FF, CR, SPACE and NO-BREAK SPACE.
\<close>

definition isWhiteSpace :: "char \<Rightarrow> bool" where
  "isWhiteSpace c = (of_char c \<in> {9, 10, 11, 12, 13, 32, 160 :: nat})"

definition trim :: "string \<Rightarrow> string" where
  "trim s = rev (dropWhile isWhiteSpace (rev (dropWhile isWhiteSpace s)))"

text \<open>
  \<open>s.split(sep)\<close>: the pieces of \<open>s\<close> between the occurrences of \<open>sep\<close>, found from
  left to right without overlap. \<open>cur\<close> is the piece being read. With the empty separator
  JavaScript splits into single code units. For a non-empty separator there is always a
  first piece (\<open>split_not_Nil\<close> below), which is what \<open>split(sep)[0]\<close> reads as
  \<^term>\<open>hd (split sep s)\<close>.
\<close>

fun split_go :: "string \<Rightarrow> string \<Rightarrow> string \<Rightarrow> string list" where
  "split_go sep cur [] = [cur]"
| "split_go sep cur (c # cs) =
     (if prefix sep (c # cs) then cur # split_go sep [] (drop (length sep - 1) cs)
      else split_go sep (cur @ [c]) cs)"

definition split :: "string \<Rightarrow> string \<Rightarrow> string list" where
  "split sep s = (if sep = [] then map (\<lambda>c. [c]) s else split_go sep [] s)"

text \<open>\<open>String(n)\<close> for a non-negative integer: its decimal digits.\<close>

definition digit :: "nat \<Rightarrow> char" where
  "digit d = ''0123456789'' ! d"

function String_of_nat :: "nat \<Rightarrow> string" where
  "String_of_nat n = (if n < 10 then [digit n] else String_of_nat (n div 10) @ [digit (n mod 10)])"
  by pat_completeness auto
termination
  by (relation "measure (\<lambda>n. n)") auto

declare String_of_nat.simps [simp del]

text \<open>
  \<open>a || b\<close> where \<open>a\<close> is an optional string: \<open>undefined\<close> and the empty string are
  falsy, every other string is truthy.
\<close>

definition or_else :: "string option \<Rightarrow> string \<Rightarrow> string" where
  "or_else a b = (case a of None \<Rightarrow> b | Some s \<Rightarrow> if s = [] then b else s)"

text \<open>
  The text of \<open>s\<close> before the first occurrence of \<open>sep\<close>, and all of \<open>s\<close> when \<open>sep\<close>
  does not occur: what the first piece of a split is compared with (\<open>hd_split\<close>,
  \<open>before_present\<close>, \<open>before_first\<close> and \<open>before_absent\<close> below).
\<close>

fun before :: "string \<Rightarrow> string \<Rightarrow> string" where
  "before sep [] = []"
| "before sep (c # cs) = (if prefix sep (c # cs) then [] else c # before sep cs)"


section \<open>JSON.parse\<close>

text \<open>
  \<open>JSON.parse\<close> belongs to the platform, not to the repository. It is modelled after the
  JSON grammar: the text is cut into tokens and a stack machine reads the tokens, one step for
  each token. The result is \<open>None\<close> where \<open>JSON.parse\<close> throws a SyntaxError.

  A number is kept as its literal text, since floating point numbers are not modelled. An
  object is kept as the list of its members in the order of the text, a repeated key included.
  A \<open>\u\<close> escape above U+00FF names a code unit that no 8-bit string holds; the decoder
  keeps its low byte. No statement below depends on the characters of a decoded string.
\<close>

datatype json =
    JNull
  | JBool bool
  | JNumber string
  | JString string
  | JArray "json list"
  | JObject "(string \<times> json) list"

datatype token =
    LBracket | RBracket | LBrace | RBrace | Comma | Colon
  | TString string | TNumber string | TTrue | TFalse | TNull

definition isJsonSpace :: "char \<Rightarrow> bool" where
  "isJsonSpace c = (c = CHR 0x20 \<or> c = CHR 0x09 \<or> c = CHR 0x0A \<or> c = CHR 0x0D)"

definition isDigit :: "char \<Rightarrow> bool" where
  "isDigit c = (c \<in> set ''0123456789'')"

definition hexValue :: "char \<Rightarrow> nat option" where
  "hexValue c =
     (let n = (of_char c :: nat)
      in if 48 \<le> n \<and> n \<le> 57 then Some (n - 48)
         else if 65 \<le> n \<and> n \<le> 70 then Some (n - 55)
         else if 97 \<le> n \<and> n \<le> 102 then Some (n - 87)
         else None)"

definition hex4 :: "string \<Rightarrow> nat option" where
  "hex4 s =
     (case map hexValue (take 4 s) of
        [Some a, Some b, Some c, Some d] \<Rightarrow> Some (((a * 16 + b) * 16 + c) * 16 + d)
      | _ \<Rightarrow> None)"

definition unescape :: "char \<Rightarrow> char option" where
  "unescape e =
     (if e = CHR 0x22 \<or> e = CHR 0x5C \<or> e = CHR ''/'' then Some e
      else if e = CHR ''b'' then Some (CHR 0x08)
      else if e = CHR ''f'' then Some (CHR 0x0C)
      else if e = CHR ''n'' then Some (CHR 0x0A)
      else if e = CHR ''r'' then Some (CHR 0x0D)
      else if e = CHR ''t'' then Some (CHR 0x09)
      else None)"

text \<open>
  The characters of a string after its opening quote, up to the closing quote: the decoded
  string and the rest of the text.
\<close>

fun lexString :: "string \<Rightarrow> string \<Rightarrow> (string \<times> string) option" where
  "lexString acc [] = None"
| "lexString acc (c # cs) =
     (if c = CHR 0x22 then Some (acc, cs)
      else if c = CHR 0x5C then
        (case cs of
           [] \<Rightarrow> None
         | e # cs' \<Rightarrow>
             if e = CHR ''u'' then
               (case hex4 cs' of
                  None \<Rightarrow> None
                | Some n \<Rightarrow> lexString (acc @ [char_of n]) (drop 4 cs'))
             else
               (case unescape e of
                  None \<Rightarrow> None
                | Some x \<Rightarrow> lexString (acc @ [x]) cs'))
      else if of_char c \<le> (0x1F :: nat) then None
      else lexString (acc @ [c]) cs)"

text \<open>
  A number: an optional minus sign, the integer part (a single 0, or a digit from 1 to 9 and
  more digits), an optional fraction and an optional exponent.
\<close>

text \<open>The digits at the start of \<open>s\<close>, at least one, added to the lexeme.\<close>

definition lexDigits :: "string \<Rightarrow> string \<Rightarrow> (string \<times> string) option" where
  "lexDigits lexeme s =
     (if takeWhile isDigit s = [] then None
      else Some (lexeme @ takeWhile isDigit s, dropWhile isDigit s))"

definition lexExponent :: "string \<Rightarrow> string \<Rightarrow> (string \<times> string) option" where
  "lexExponent lexeme s =
     (case s of
        [] \<Rightarrow> Some (lexeme, s)
      | e # s' \<Rightarrow>
          if e = CHR ''e'' \<or> e = CHR ''E'' then
            (case s' of
               [] \<Rightarrow> None
             | c # s'' \<Rightarrow>
                 if c = CHR ''+'' \<or> c = CHR ''-'' then lexDigits (lexeme @ [e, c]) s''
                 else lexDigits (lexeme @ [e]) s')
          else Some (lexeme, s))"

definition lexFraction :: "string \<Rightarrow> string \<Rightarrow> (string \<times> string) option" where
  "lexFraction lexeme s =
     (case s of
        [] \<Rightarrow> lexExponent lexeme s
      | p # s' \<Rightarrow>
          if p = CHR ''.'' then
            (case lexDigits (lexeme @ [p]) s' of
               None \<Rightarrow> None
             | Some (lexeme', s'') \<Rightarrow> lexExponent lexeme' s'')
          else lexExponent lexeme s)"

definition lexInteger :: "string \<Rightarrow> string \<Rightarrow> (string \<times> string) option" where
  "lexInteger lexeme s =
     (case s of
        [] \<Rightarrow> None
      | d # s' \<Rightarrow>
          if d = CHR ''0'' then lexFraction (lexeme @ [d]) s'
          else if isDigit d then
            lexFraction (lexeme @ d # takeWhile isDigit s') (dropWhile isDigit s')
          else None)"

definition lexNumber :: "string \<Rightarrow> (string \<times> string) option" where
  "lexNumber s =
     (case s of
        [] \<Rightarrow> None
      | c # s' \<Rightarrow> if c = CHR ''-'' then lexInteger [c] s' else lexInteger [] s)"

text \<open>
  Each lexer leaves less text than it was given, so cutting the text into tokens ends.
\<close>

lemma lexString_shorter: "lexString acc s = Some (str, rest) \<Longrightarrow> length rest < length s"
proof (induction acc s rule: lexString.induct)
  case (1 acc)
  then show ?case by simp
next
  case (2 acc c cs)
  show ?case
  proof (cases "c = CHR 0x22")
    case True
    with "2.prems" show ?thesis by simp
  next
    case quote: False
    show ?thesis
    proof (cases "c = CHR 0x5C")
      case False
      with quote "2.prems" have "lexString (acc @ [c]) cs = Some (str, rest)"
        and "\<not> of_char c \<le> (0x1F :: nat)"
        by (simp_all split: if_splits)
      with "2.IH"(3) [OF quote False] show ?thesis by simp
    next
      case True
      with quote "2.prems" obtain e cs' where cs: "cs = e # cs'"
        by (cases cs) simp_all
      show ?thesis
      proof (cases "e = CHR ''u''")
        case u: True
        with quote True cs "2.prems" obtain n where n: "hex4 cs' = Some n"
          and "lexString (acc @ [char_of n]) (drop 4 cs') = Some (str, rest)"
          by (cases "hex4 cs'") simp_all
        with "2.IH"(1) [OF quote True cs u n] have "length rest < length (drop 4 cs')"
          by simp
        with cs show ?thesis by simp
      next
        case nu: False
        with quote True cs "2.prems" obtain x where x: "unescape e = Some x"
          and "lexString (acc @ [x]) cs' = Some (str, rest)"
          by (cases "unescape e") simp_all
        with "2.IH"(2) [OF quote True cs nu x] have "length rest < length cs'"
          by simp
        with cs show ?thesis by simp
      qed
    qed
  qed
qed

lemma lexDigits_shorter: "lexDigits l s = Some (l', rest) \<Longrightarrow> length rest \<le> length s"
  using length_dropWhile_le [of isDigit s]
  by (auto simp: lexDigits_def split: if_splits)

lemma lexExponent_shorter: "lexExponent l s = Some (l', rest) \<Longrightarrow> length rest \<le> length s"
  unfolding lexExponent_def
  by (auto split: list.splits if_splits dest!: lexDigits_shorter)

lemma lexFraction_shorter: "lexFraction l s = Some (l', rest) \<Longrightarrow> length rest \<le> length s"
  unfolding lexFraction_def
  by (auto split: list.splits if_splits option.splits dest!: lexDigits_shorter lexExponent_shorter)

lemma lexInteger_shorter: "lexInteger l s = Some (l', rest) \<Longrightarrow> length rest < length s"
  unfolding lexInteger_def
  using length_dropWhile_le [of isDigit "tl s"]
  by (auto split: list.splits if_splits dest!: lexFraction_shorter)

lemma lexNumber_shorter: "lexNumber s = Some (l, rest) \<Longrightarrow> length rest < length s"
  unfolding lexNumber_def
  by (auto split: list.splits if_splits dest!: lexInteger_shorter)

function tokenize :: "string \<Rightarrow> token list option" where
  "tokenize [] = Some []"
| "tokenize (c # cs) =
     (if isJsonSpace c then tokenize cs
      else if c = CHR ''['' then map_option ((#) LBracket) (tokenize cs)
      else if c = CHR '']'' then map_option ((#) RBracket) (tokenize cs)
      else if c = CHR ''{'' then map_option ((#) LBrace) (tokenize cs)
      else if c = CHR ''}'' then map_option ((#) RBrace) (tokenize cs)
      else if c = CHR '','' then map_option ((#) Comma) (tokenize cs)
      else if c = CHR '':'' then map_option ((#) Colon) (tokenize cs)
      else if c = CHR 0x22 then
        (case lexString [] cs of
           None \<Rightarrow> None
         | Some (str, rest) \<Rightarrow> map_option ((#) (TString str)) (tokenize rest))
      else if c = CHR ''-'' \<or> isDigit c then
        (case lexNumber (c # cs) of
           None \<Rightarrow> None
         | Some (lexeme, rest) \<Rightarrow> map_option ((#) (TNumber lexeme)) (tokenize rest))
      else if prefix ''true'' (c # cs) then map_option ((#) TTrue) (tokenize (drop 3 cs))
      else if prefix ''false'' (c # cs) then map_option ((#) TFalse) (tokenize (drop 4 cs))
      else if prefix ''null'' (c # cs) then map_option ((#) TNull) (tokenize (drop 3 cs))
      else None)"
  by pat_completeness auto
termination
proof (relation "measure length", simp_all, goal_cases)
  case (1 c cs x2 x y)
  then have "lexString [] cs = Some (x, y)" by simp
  from lexString_shorter [OF this] show ?case by simp
next
  case (2 c cs x2 x y)
  then have "lexNumber (c # cs) = Some (x, y)" by simp
  from lexNumber_shorter [OF this] show ?case by simp
qed

text \<open>
  The stack machine. A frame is an array or an object that is open around the value being
  read: the elements read so far, or the members read so far and the key whose value is
  being read. The state says what may come next.
\<close>

datatype frame = InArray "json list" | InObject "(string \<times> json) list" string

datatype state =
    ExpectValue "frame list"
  | ArrayStart "frame list"
  | ArrayNext "json list" "frame list"
  | ObjectStart "frame list"
  | ObjectKey "(string \<times> json) list" "frame list"
  | ObjectColon "(string \<times> json) list" string "frame list"
  | ObjectNext "(string \<times> json) list" "frame list"
  | Finished json

fun deliver :: "json \<Rightarrow> frame list \<Rightarrow> state" where
  "deliver v [] = Finished v"
| "deliver v (InArray xs # stack) = ArrayNext (xs @ [v]) stack"
| "deliver v (InObject ms k # stack) = ObjectNext (ms @ [(k, v)]) stack"

fun startValue :: "frame list \<Rightarrow> token \<Rightarrow> state option" where
  "startValue stack LBracket = Some (ArrayStart stack)"
| "startValue stack LBrace = Some (ObjectStart stack)"
| "startValue stack (TString s) = Some (deliver (JString s) stack)"
| "startValue stack (TNumber n) = Some (deliver (JNumber n) stack)"
| "startValue stack TTrue = Some (deliver (JBool True) stack)"
| "startValue stack TFalse = Some (deliver (JBool False) stack)"
| "startValue stack TNull = Some (deliver JNull stack)"
| "startValue stack _ = None"

fun step :: "state \<Rightarrow> token \<Rightarrow> state option" where
  "step (ExpectValue stack) t = startValue stack t"
| "step (ArrayStart stack) t =
     (if t = RBracket then Some (deliver (JArray []) stack)
      else startValue (InArray [] # stack) t)"
| "step (ArrayNext xs stack) t =
     (if t = Comma then Some (ExpectValue (InArray xs # stack))
      else if t = RBracket then Some (deliver (JArray xs) stack)
      else None)"
| "step (ObjectStart stack) t =
     (case t of
        RBrace \<Rightarrow> Some (deliver (JObject []) stack)
      | TString k \<Rightarrow> Some (ObjectColon [] k stack)
      | _ \<Rightarrow> None)"
| "step (ObjectKey ms stack) t =
     (case t of TString k \<Rightarrow> Some (ObjectColon ms k stack) | _ \<Rightarrow> None)"
| "step (ObjectColon ms k stack) t =
     (if t = Colon then Some (ExpectValue (InObject ms k # stack)) else None)"
| "step (ObjectNext ms stack) t =
     (if t = Comma then Some (ObjectKey ms stack)
      else if t = RBrace then Some (deliver (JObject ms) stack)
      else None)"
| "step (Finished v) t = None"

fun run :: "state \<Rightarrow> token list \<Rightarrow> json option" where
  "run st [] = (case st of Finished v \<Rightarrow> Some v | _ \<Rightarrow> None)"
| "run st (t # ts) = (case step st t of None \<Rightarrow> None | Some st' \<Rightarrow> run st' ts)"

definition JSON_parse :: "string \<Rightarrow> json option" where
  "JSON_parse s = (case tokenize s of None \<Rightarrow> None | Some ts \<Rightarrow> run (ExpectValue []) ts)"

text \<open>
  For the proofs: the kind of a value, of a frame, the frames that are open in a state
  (the one being read first), and the states whose outermost open frame, or whose finished
  value, has a given kind.
\<close>

datatype kind = ArrayKind | ObjectKind | ScalarKind

fun jsonKind :: "json \<Rightarrow> kind" where
  "jsonKind (JArray xs) = ArrayKind"
| "jsonKind (JObject ms) = ObjectKind"
| "jsonKind v = ScalarKind"

fun frameKind :: "frame \<Rightarrow> kind" where
  "frameKind (InArray xs) = ArrayKind"
| "frameKind (InObject ms k) = ObjectKind"

fun openFrames :: "state \<Rightarrow> frame list" where
  "openFrames (ExpectValue stack) = stack"
| "openFrames (ArrayStart stack) = InArray [] # stack"
| "openFrames (ArrayNext xs stack) = InArray xs # stack"
| "openFrames (ObjectStart stack) = InObject [] [] # stack"
| "openFrames (ObjectKey ms stack) = InObject ms [] # stack"
| "openFrames (ObjectColon ms k stack) = InObject ms k # stack"
| "openFrames (ObjectNext ms stack) = InObject ms [] # stack"
| "openFrames (Finished v) = []"

definition rooted :: "kind \<Rightarrow> state \<Rightarrow> bool" where
  "rooted k st =
     (case st of
        Finished v \<Rightarrow> jsonKind v = k
      | _ \<Rightarrow> openFrames st \<noteq> [] \<and> frameKind (last (openFrames st)) = k)"


section \<open>Records\<close>

text \<open>
  A record of the news vendor (\<open>apiArticle: any\<close>), with the six properties that
  \<open>mapApiArticleToNewsArticle\<close> reads, taken to be strings; a property the vendor left
  out is \<open>None\<close>.
\<close>

record ApiArticle =
  title :: "string option"
  snippet :: "string option"
  thumbnail_url :: "string option"
  link :: "string option"
  source_name :: "string option"
  published_datetime_utc :: "string option"

text \<open>
  \<open>interface NewsArticle\<close>: every field is optional. The articles of both paths have this
  type, and \<open>aiArticles\<close> is declared \<open>NewsArticle[]\<close>: the mapping of generated records
  is modelled on a record as this interface declares it, an object whose properties, where
  present, are strings.
\<close>

record NewsArticle =
  id' :: "string option"
  title :: "string option"
  originalTitle :: "string option"
  summary :: "string option"
  originalSummary :: "string option"
  imageUrl :: "string option"
  publishedAt :: "string option"
  originalUrl :: "string option"
  source :: "string option"
  aiGenerated :: "bool option"
  Generated_article :: "string option"
  Input_person_name :: "string option"
  Timestamp :: "string option"
  Source_URL :: "string option"

text \<open>The object \<open>{}\<close>: no property is set.\<close>

definition blankArticle :: NewsArticle where
  "blankArticle =
     \<lparr> id' = None, title = None, originalTitle = None, summary = None, originalSummary = None,
       imageUrl = None, publishedAt = None, originalUrl = None, source = None,
       aiGenerated = None, Generated_article = None, Input_person_name = None,
       Timestamp = None, Source_URL = None \<rparr>"

definition blankApiArticle :: ApiArticle where
  "blankApiArticle =
     \<lparr> ApiArticle.title = None, snippet = None, thumbnail_url = None, link = None,
       source_name = None, published_datetime_utc = None \<rparr>"


section \<open>The article list screen: generated records\<close>

text \<open>
  \<open>aiText.replace(/```json\n?/g, '')\<close> and \<open>.replace(/```\n?/g, '')\<close>: every match of the
  fence, with the newline after it when there is one, is removed; the search goes on after
  the match. \<open>removeFences\<close> is used with these two fences only.
\<close>

fun dropNewline :: "string \<Rightarrow> string" where
  "dropNewline [] = []"
| "dropNewline (c # cs) = (if c = CHR 0x0A then cs else c # cs)"

lemma length_dropNewline: "length (dropNewline s) \<le> length s"
  by (cases s) auto

function removeFences :: "string \<Rightarrow> string \<Rightarrow> string" where
  "removeFences fence [] = []"
| "removeFences fence (c # cs) =
     (if fence \<noteq> [] \<and> prefix fence (c # cs)
      then removeFences fence (dropNewline (drop (length fence) (c # cs)))
      else c # removeFences fence cs)"
  by pat_completeness auto
termination
proof (relation "measure (\<lambda>(fence, s). length s)")
  fix fence :: string and c cs
  assume "fence \<noteq> [] \<and> prefix fence (c # cs)"
  then have "length (drop (length fence) (c # cs)) < length (c # cs)"
    by (cases fence) auto
  with length_dropNewline [of "drop (length fence) (c # cs)"]
  show "((fence, dropNewline (drop (length fence) (c # cs))), fence, c # cs)
        \<in> measure (\<lambda>(fence, s). length s)"
    by simp
qed auto

text \<open>\<open>aiText.replace(/[\u0000-\u001F]/g, '')\<close>\<close>

definition removeControls :: "string \<Rightarrow> string" where
  "removeControls s = filter (\<lambda>c. \<not> of_char c \<le> (0x1F :: nat)) s"

text \<open>
  The text the effect decodes: trimmed, the two fence forms removed, trimmed again, the
  control characters removed.
\<close>

definition sanitize :: "string \<Rightarrow> string" where
  "sanitize aiResponse =
     (let aiText = trim aiResponse;
          aiText = trim (removeFences ''```'' (removeFences ''```json'' aiText))
      in removeControls aiText)"

text \<open>The fallback record \<open>{ "Generated article": aiText }\<close>.\<close>

definition plainText :: "string \<Rightarrow> json" where
  "plainText aiText = JObject [(''Generated article'', JString aiText)]"

text \<open>
  The body of \<open>if (params.aiResponse) { ... }\<close> up to the mapping: \<open>aiArticles\<close>. The
  \<open>catch\<close> clause receives the SyntaxError of \<open>JSON.parse\<close>, the only call in the
  \<open>try\<close> block that can throw; \<open>aiText\<close> is the cleaned text by then.
\<close>

definition parseAiResponse :: "string \<Rightarrow> json list" where
  "parseAiResponse aiResponse =
     (let aiText = sanitize aiResponse
      in if prefix ''['' aiText \<or> prefix ''{'' aiText then
           (case JSON_parse aiText of
              None \<Rightarrow> [plainText aiText]
            | Some parsed \<Rightarrow> (case parsed of JArray xs \<Rightarrow> xs | _ \<Rightarrow> [parsed]))
         else [plainText aiText])"

text \<open>
  The effect runs the body only for a truthy \<open>params.aiResponse\<close>: for an absent or empty
  one it sets no articles (\<open>None\<close>).
\<close>

definition aiArticlesOf :: "string option \<Rightarrow> json list option" where
  "aiArticlesOf aiResponse =
     (case aiResponse of
        None \<Rightarrow> None
      | Some raw \<Rightarrow> if raw = [] then None else Some (parseAiResponse raw))"

definition newsImages :: "string list" where
  "newsImages =
    [''https://images.pexels.com/photos/518543/pexels-photo-518543.jpeg?auto=compress&cs=tinysrgb&w=800'',
     ''https://images.pexels.com/photos/1591056/pexels-photo-1591056.jpeg?auto=compress&cs=tinysrgb&w=800'',
     ''https://images.pexels.com/photos/1591447/pexels-photo-1591447.jpeg?auto=compress&cs=tinysrgb&w=800'',
     ''https://images.pexels.com/photos/1591061/pexels-photo-1591061.jpeg?auto=compress&cs=tinysrgb&w=800'',
     ''https://images.pexels.com/photos/163064/play-stone-network-networked-interactive-163064.jpeg?auto=compress&cs=tinysrgb&w=800'']"

definition getRandomNewsImage :: "nat \<Rightarrow> string" where
  "getRandomNewsImage index = newsImages ! (index mod length newsImages)"

text \<open>
  The local \<open>title\<close> of the mapping: empty for an empty body, else the first piece of the
  body split at periods with a period appended, or the first 60 characters and an ellipsis
  when that piece is longer than 80 characters.
\<close>

definition deriveTitle :: "string \<Rightarrow> string" where
  "deriveTitle generatedContent =
     (if generatedContent \<noteq> [] then
        (let firstSentence = hd (split ''.'' generatedContent)
         in if length firstSentence > 80 then take 60 generatedContent @ ''...''
            else firstSentence @ ''.'')
      else [])"

text \<open>
  The local \<open>summary\<close>: \<open>split('\n\n')[0] || split('\n')[0]\<close>, cut to 200 characters and an
  ellipsis when longer.
\<close>

definition deriveSummary :: "string \<Rightarrow> string" where
  "deriveSummary generatedContent =
     (if generatedContent \<noteq> [] then
        (let firstParagraph =
               or_else (Some (hd (split [CHR 0x0A, CHR 0x0A] generatedContent)))
                 (hd (split [CHR 0x0A] generatedContent))
         in if length firstParagraph > 200 then take 200 firstParagraph @ ''...''
            else firstParagraph)
      else [])"

text \<open>
  The function given to \<open>aiArticles.map\<close>; \<open>selectedPerson\<close> is the screen's state,
  \<open>idx\<close> the position of the record.
\<close>

definition mapAiArticle :: "string \<Rightarrow> NewsArticle \<Rightarrow> nat \<Rightarrow> NewsArticle" where
  "mapAiArticle selectedPerson article idx =
     (let generatedContent = or_else (Generated_article article) []
      in \<lparr> id' = Some (String_of_nat (idx + 1)),
           title = Some (or_else (Some (deriveTitle generatedContent))
                     (selectedPerson @ [CHR 0x27] @ ''s Perspective on Current Events'')),
           originalTitle = Some [],
           summary = Some (or_else (Some (deriveSummary generatedContent))
                       (take 200 generatedContent @ ''...'')),
           originalSummary = Some [],
           imageUrl = Some (getRandomNewsImage idx),
           publishedAt = Some (or_else (Timestamp article) ''Today''),
           originalUrl = Some (or_else (Source_URL article) []),
           source = Some ''BBC News'',
           aiGenerated = Some True,
           Generated_article = Some generatedContent,
           Input_person_name = Some selectedPerson,
           Timestamp = None,
           Source_URL = None \<rparr>)"


section \<open>The vendor path\<close>

text \<open>
  \<open>mapApiArticleToNewsArticle\<close> builds an object with eight properties; \<open>title\<close>,
  \<open>summary\<close> and the four properties of generated records are not among them.
\<close>

definition mapApiArticleToNewsArticle :: "ApiArticle \<Rightarrow> nat \<Rightarrow> NewsArticle" where
  "mapApiArticleToNewsArticle apiArticle idx =
     \<lparr> id' = Some (String_of_nat (idx + 1)),
       title = None,
       originalTitle = Some (or_else (ApiArticle.title apiArticle) []),
       summary = None,
       originalSummary = Some (or_else (snippet apiArticle) []),
       imageUrl = Some (or_else (thumbnail_url apiArticle)
         ''https://images.pexels.com/photos/163064/play-stone-network-networked-interactive-163064.jpeg?auto=compress&cs=tinysrgb&w=800''),
       publishedAt = Some (or_else (published_datetime_utc apiArticle) []),
       originalUrl = Some (or_else (link apiArticle) []),
       source = Some (or_else (source_name apiArticle) []),
       aiGenerated = Some False,
       Generated_article = None,
       Input_person_name = None,
       Timestamp = None,
       Source_URL = None \<rparr>"

text \<open>
  What the detail screen tests with \<open>title || originalTitle\<close>: one of the two is a
  non-empty string.
\<close>

definition truthy :: "string option \<Rightarrow> bool" where
  "truthy a = (case a of None \<Rightarrow> False | Some s \<Rightarrow> s \<noteq> [])"

definition hasTitle :: "NewsArticle \<Rightarrow> bool" where
  "hasTitle a = (truthy (title a) \<or> truthy (originalTitle a))"


section \<open>The article detail screen: the perspective text\<close>

text \<open>
  The four template functions of \<open>articleTemplates\<close>, each a template literal with the title
  and the summary put in.
\<close>

definition AlbertEinstein :: "string \<Rightarrow> string \<Rightarrow> string" where
  "AlbertEinstein title' summary' =
     ''\<newline>''
     @ ''My dear friends,\<newline>''
     @ ''\<newline>''
     @ ''As I sit in my study, contemplating the intricate dance of particles and ''
     @ ''waves that governs our universe, I find myself drawn to examine this fascinating ''
     @ ''development: ''
     @ [CHR 0x22]
     @ title'
     @ [CHR 0x22]
     @ ''.\<newline>''
     @ ''\<newline>''
     @ summary'
     @ ''\<newline>''
     @ ''\<newline>''
     @ ''From my perspective as a physicist, I see in this situation the same fundamental ''
     @ ''principles that govern the cosmos. Just as E=mc''
     @ [CHR 0xB2]
     @ '' reveals the profound relationship between mass and energy, so too does ''
     @ ''this event illuminate the deeper connections between human endeavor and ''
     @ ''the natural laws that bind us all.\<newline>''
     @ ''\<newline>''
     @ ''The curiosity that drives scientific inquiry compels us to ask not merely ''
     @ [CHR 0x22]
     @ ''what''
     @ [CHR 0x22]
     @ '' has occurred, but ''
     @ [CHR 0x22]
     @ ''why''
     @ [CHR 0x22]
     @ '' and ''
     @ [CHR 0x22]
     @ ''how.''
     @ [CHR 0x22]
     @ '' In examining these circumstances, we must remember that the universe ''
     @ ''operates according to principles that transcend our immediate understanding, ''
     @ ''yet reward patient observation and thoughtful analysis.\<newline>''
     @ ''\<newline>''
     @ ''I am reminded of my belief that ''
     @ [CHR 0x22]
     @ ''imagination is more important than knowledge.''
     @ [CHR 0x22]
     @ '' While we must ground ourselves in facts and evidence, we must also dare ''
     @ ''to envision possibilities that extend beyond our current comprehension. ''
     @ ''This situation presents such an opportunity for intellectual growth.\<newline>''
     @ ''\<newline>''
     @ ''The responsibility of knowledge weighs heavily upon those who seek to ''
     @ ''understand the world''
     @ [CHR 0x27]
     @ ''s complexities. As we witness these developments unfold, we must remember ''
     @ ''that our role is not merely to observe, but to contribute to the greater ''
     @ ''understanding of humanity''
     @ [CHR 0x27]
     @ ''s place in this magnificent cosmos.\<newline>''
     @ ''\<newline>''
     @ ''With warm regards and endless curiosity,\<newline>''
     @ ''Albert Einstein\<newline>''
     @ ''    ''"

definition OprahWinfrey :: "string \<Rightarrow> string \<Rightarrow> string" where
  "OprahWinfrey title' summary' =
     ''\<newline>''
     @ ''Hello, beautiful souls!\<newline>''
     @ ''\<newline>''
     @ ''What moves me most deeply about this story - ''
     @ [CHR 0x22]
     @ title'
     @ [CHR 0x22]
     @ '' - is the human element at its very core.\<newline>''
     @ ''\<newline>''
     @ summary'
     @ ''\<newline>''
     @ ''\<newline>''
     @ ''Behind every headline, every statistic, every development, there are real ''
     @ ''people with real dreams, real struggles, and real triumphs. I''
     @ [CHR 0x27]
     @ ''ve learned through my years of connecting with people from all walks of ''
     @ ''life that our stories are what bind us together.\<newline>''
     @ ''\<newline>''
     @ ''This situation reminds me of the countless conversations I''
     @ [CHR 0x27]
     @ ''ve had where someone''
     @ [CHR 0x27]
     @ ''s vulnerability led to breakthrough, where their courage inspired others ''
     @ ''to find their own strength. The power of authenticity shines through in ''
     @ ''moments like these.\<newline>''
     @ ''\<newline>''
     @ ''What I know for sure is that every challenge presents an opportunity for ''
     @ ''transformation. The individuals affected by these circumstances have within ''
     @ ''them the power to not just survive, but to thrive. Their stories will ''
     @ ''inspire others, creating ripples of positive change that extend far beyond ''
     @ ''what we can imagine.\<newline>''
     @ ''\<newline>''
     @ ''When I look at this situation, I don''
     @ [CHR 0x27]
     @ ''t just see facts and figures - I see the beautiful, complex, ever-evolving ''
     @ ''story of human experience. I see resilience. I see hope. I see the potential ''
     @ ''for growth and healing.\<newline>''
     @ ''\<newline>''
     @ ''As we witness these events unfold, I encourage each of us to approach ''
     @ ''them with empathy, understanding, and a willingness to learn. The greatest ''
     @ ''gift we can give one another is our presence, our attention, and our belief ''
     @ ''in the possibility of better days ahead.\<newline>''
     @ ''\<newline>''
     @ ''This is what I see when I look at this development: not just news, but ''
     @ ''a reminder of our shared humanity and our incredible capacity for love, ''
     @ ''growth, and positive change.\<newline>''
     @ ''\<newline>''
     @ ''Much love and light,\<newline>''
     @ ''Oprah\<newline>''
     @ ''    ''"

definition ElonMusk :: "string \<Rightarrow> string \<Rightarrow> string" where
  "ElonMusk title' summary' =
     ''\<newline>''
     @ ''Looking at ''
     @ [CHR 0x22]
     @ title'
     @ [CHR 0x22]
     @ '' from first principles, we need to break down this problem to its fundamental ''
     @ ''components.\<newline>''
     @ ''\<newline>''
     @ summary'
     @ ''\<newline>''
     @ ''\<newline>''
     @ ''The question I always ask is: what would it take to make this 10 times ''
     @ ''better? Incremental improvements aren''
     @ [CHR 0x27]
     @ ''t enough when we''
     @ [CHR 0x27]
     @ ''re dealing with challenges of this magnitude. We need to think exponentially, ''
     @ ''not linearly.\<newline>''
     @ ''\<newline>''
     @ ''From an engineering perspective, every problem is solvable with the right ''
     @ ''combination of talent, resources, and determination. The key is to identify ''
     @ ''the biggest bottlenecks and attack them with relentless focus. We can''
     @ [CHR 0x27]
     @ ''t afford to optimize for the wrong variables.\<newline>''
     @ ''\<newline>''
     @ ''What excites me about this development is the potential for technological ''
     @ ''solutions that could fundamentally change how we approach similar challenges ''
     @ ''in the future. Whether we''
     @ [CHR 0x27]
     @ ''re talking about sustainable energy, space exploration, or artificial ''
     @ ''intelligence, the principles remain the same: identify the physics constraints, ''
     @ ''gather the best team possible, and iterate rapidly.\<newline>''
     @ ''\<newline>''
     @ ''The timeline for meaningful change is always faster than people think, ''
     @ ''but slower than we''
     @ [CHR 0x27]
     @ ''d like. That''
     @ [CHR 0x27]
     @ ''s why we need to maintain urgency while also being realistic about the ''
     @ ''complexity of the problems we''
     @ [CHR 0x27]
     @ ''re trying to solve.\<newline>''
     @ ''\<newline>''
     @ ''We''
     @ [CHR 0x27]
     @ ''re living in the most exciting time in human history. The tools we have ''
     @ ''access to today - from advanced manufacturing to artificial intelligence ''
     @ ''to global communication networks - give us unprecedented ability to solve ''
     @ ''problems that previous generations could only dream of addressing.\<newline>''
     @ ''\<newline>''
     @ ''The future is going to be wild, and developments like this are just the ''
     @ ''beginning of what''
     @ [CHR 0x27]
     @ ''s possible when human ingenuity meets cutting-edge technology.\<newline>''
     @ ''\<newline>''
     @ ''Let''
     @ [CHR 0x27]
     @ ''s build something great together.\<newline>''
     @ ''\<newline>''
     @ ''- Elon\<newline>''
     @ ''    ''"

definition Default :: "string \<Rightarrow> string \<Rightarrow> string" where
  "Default title' summary' =
     ''\<newline>''
     @ [CHR 0x22]
     @ title'
     @ [CHR 0x22]
     @ ''\<newline>''
     @ ''\<newline>''
     @ summary'
     @ ''\<newline>''
     @ ''\<newline>''
     @ ''This development represents a significant moment in our ongoing dialogue ''
     @ ''about the challenges and opportunities facing our world today. As we examine ''
     @ ''the various facets of this story, it becomes clear that we are witnessing ''
     @ ''a convergence of factors that will likely influence how we approach similar ''
     @ ''situations in the future.\<newline>''
     @ ''\<newline>''
     @ ''The human element in this story cannot be overlooked. Behind every policy ''
     @ ''decision, every technological advancement, and every social movement are ''
     @ ''individuals whose lives are directly affected by these changes. Their ''
     @ ''experiences provide valuable insights into the real-world implications ''
     @ ''of these developments.\<newline>''
     @ ''\<newline>''
     @ ''From a broader perspective, this situation highlights the interconnected ''
     @ ''nature of our global society. Actions and decisions in one area often ''
     @ ''have far-reaching consequences that extend well beyond their immediate ''
     @ ''context. Understanding these connections is crucial for anyone seeking ''
     @ ''to make informed decisions about the future.\<newline>''
     @ ''\<newline>''
     @ ''The path forward requires careful consideration of both immediate needs ''
     @ ''and long-term implications. While it''
     @ [CHR 0x27]
     @ ''s tempting to focus solely on short-term solutions, sustainable progress ''
     @ ''often requires us to take a more comprehensive view of the challenges ''
     @ ''we face.\<newline>''
     @ ''\<newline>''
     @ ''As we continue to monitor these developments, it''
     @ [CHR 0x27]
     @ ''s important to maintain both optimism about our collective ability to ''
     @ ''address complex challenges and realism about the work that lies ahead. ''
     @ ''The solutions we develop today will shape the world we leave for future ''
     @ ''generations.\<newline>''
     @ ''    ''"

definition articleTemplates :: "(string \<times> (string \<Rightarrow> string \<Rightarrow> string)) list" where
  "articleTemplates =
     [(''Albert Einstein'', AlbertEinstein),
      (''Oprah Winfrey'', OprahWinfrey),
      (''Elon Musk'', ElonMusk),
      (''Default'', Default)]"

text \<open>
  \<open>articleTemplates\<close> is an object literal, so \<open>articleTemplates[person]\<close> also finds what
  the object inherits from \<open>Object.prototype\<close>: these twelve names. All of them are truthy
  (eleven functions and, for \<open>__proto__\<close>, the prototype object).
\<close>

definition objectPrototype :: "string list" where
  "objectPrototype =
     [''constructor'', ''__defineGetter__'', ''__defineSetter__'', ''hasOwnProperty'',
      ''__lookupGetter__'', ''__lookupSetter__'', ''isPrototypeOf'', ''propertyIsEnumerable'',
      ''toString'', ''valueOf'', ''__proto__'', ''toLocaleString'']"

datatype 'a property = Own 'a | Inherited string | Undefined

definition getProperty :: "(string \<times> 'a) list \<Rightarrow> string \<Rightarrow> 'a property" where
  "getProperty object key =
     (case map_of object key of
        Some v \<Rightarrow> Own v
      | None \<Rightarrow> if key \<in> set objectPrototype then Inherited key else Undefined)"

text \<open>
  What the call \<open>template(title, summary)\<close> comes to: the text of a template; or the call
  went to the member of \<open>Object.prototype\<close> of that name, which is no template and whose
  outcome is not modelled; or there was nothing to call.
\<close>

datatype rendering = Rendered string | InheritedCalled string | NotAFunction

definition generateFullAIArticle :: "string \<Rightarrow> string \<Rightarrow> string \<Rightarrow> rendering" where
  "generateFullAIArticle person title' summary' =
     (let template =
            (case getProperty articleTemplates person of
               Undefined \<Rightarrow> getProperty articleTemplates ''Default''
             | found \<Rightarrow> found)
      in case template of
           Own f \<Rightarrow> Rendered (f title' summary')
         | Inherited name \<Rightarrow> InheritedCalled name
         | Undefined \<Rightarrow> NotAFunction)"


section \<open>The completion request with retries\<close>

text \<open>
  \<open>groqResponse\<close> checks the credential, builds the request (the messages, the sampling
  parameters and, for some models, a tool declaration: nothing there branches on anything
  the loop reads, and it is left out) and runs the loop.
\<close>

text \<open>
  A thrown value, as far as the \<open>catch\<close> clause looks at it: whether it is an instance
  of \<open>TypeError\<close>, and its message.
\<close>

datatype js_error = JsError (isTypeError: bool) (message: string)

text \<open>
  What one call of \<open>fetch\<close> gives: the promise rejects, or it resolves with a response.
  Of a response the function reads the status, the body through \<open>response.text()\<close>, and
  through \<open>response.json()\<close> the value of \<open>data.choices[0].message.content\<close>; each of
  the two reads may throw. \<open>response.ok\<close> says that the status is in the range 200 to 299.
\<close>

record response =
  status :: nat
  responseText :: "js_error + string"
  content :: "js_error + string"

definition ok :: "response \<Rightarrow> bool" where
  "ok r = (200 \<le> status r \<and> status r \<le> 299)"

datatype fetch_outcome = Rejects js_error | Resolves response

text \<open>What a run does to the outside, in order: calls of \<open>fetch\<close> and waits in milliseconds.\<close>

datatype event = Fetch | Wait nat

text \<open>
  How a call of \<open>groqResponse\<close> ends: it returns the pair of the model and the content,
  it throws, or the loop ends and the function returns nothing.
\<close>

datatype result = Returns string string | Throws js_error | ReturnsUndefined

text \<open>How the \<open>try\<close> block, and then the \<open>catch\<close> clause, of one round of the loop ends.\<close>

datatype completion = Return string string | Throw js_error | Continue

definition MAX_RETRIES :: nat where
  "MAX_RETRIES = 3"

definition RETRY_DELAY :: nat where
  "RETRY_DELAY = 2000"

text \<open>\<open>Constants?.expoConfig?.extra?.GROQ_API_KEY ?? ''\<close>\<close>

definition groqApiKey :: "string option \<Rightarrow> string" where
  "groqApiKey configured = (case configured of None \<Rightarrow> [] | Some k \<Rightarrow> k)"

definition tryBlock :: "string \<Rightarrow> fetch_outcome \<Rightarrow> nat \<Rightarrow> completion \<times> event list" where
  "tryBlock aiModel outcome attempt =
     (case outcome of
        Rejects e \<Rightarrow> (Throw e, [Fetch])
      | Resolves r \<Rightarrow>
          if \<not> ok r then
            (case responseText r of
               Inl e \<Rightarrow> (Throw e, [Fetch])
             | Inr errorText \<Rightarrow>
                 if status r = 503 then
                   (if attempt < MAX_RETRIES then (Continue, [Fetch, Wait (RETRY_DELAY * attempt)])
                    else (Throw (JsError False
                      (''Groq service is temporarily unavailable. Please try again in a few minutes. (Error: ''
                        @ String_of_nat (status r) @ '' - '' @ errorText @ '')'')), [Fetch]))
                 else (Throw (JsError False
                      (''Groq API error: '' @ String_of_nat (status r) @ '' - '' @ errorText)), [Fetch]))
          else
            (case content r of
               Inl e \<Rightarrow> (Throw e, [Fetch])
             | Inr c \<Rightarrow> (Return aiModel c, [Fetch])))"

definition catchBlock :: "nat \<Rightarrow> js_error \<Rightarrow> completion \<times> event list" where
  "catchBlock attempt error =
     (if attempt < MAX_RETRIES \<and> (isTypeError error \<or> sublist ''fetch'' (message error))
      then (Continue, [Wait (RETRY_DELAY * attempt)])
      else (Throw error, []))"

text \<open>
  One round of the loop: the \<open>try\<close> block, and the \<open>catch\<close> clause for whatever it throws, its own
  \<open>throw\<close> statements included.
\<close>

definition oneAttempt :: "string \<Rightarrow> fetch_outcome \<Rightarrow> nat \<Rightarrow> completion \<times> event list" where
  "oneAttempt aiModel outcome attempt =
     (case tryBlock aiModel outcome attempt of
        (Throw e, evs) \<Rightarrow> (case catchBlock attempt e of (c, evs') \<Rightarrow> (c, evs @ evs'))
      | (c, evs) \<Rightarrow> (c, evs))"

text \<open>
  \<open>for (let attempt = 1; attempt <= MAX_RETRIES; attempt++)\<close>, from the round
  \<open>attempt\<close> on; \<open>fetch n\<close> is the outcome of the call of \<open>fetch\<close> in round \<open>n\<close>.
\<close>

function attempts :: "string \<Rightarrow> (nat \<Rightarrow> fetch_outcome) \<Rightarrow> nat \<Rightarrow> result \<times> event list" where
  "attempts aiModel fetch attempt =
     (if attempt \<le> MAX_RETRIES then
        (case oneAttempt aiModel (fetch attempt) attempt of
           (Return m c, evs) \<Rightarrow> (Returns m c, evs)
         | (Throw e, evs) \<Rightarrow> (Throws e, evs)
         | (Continue, evs) \<Rightarrow>
             (case attempts aiModel fetch (attempt + 1) of (r, evs') \<Rightarrow> (r, evs @ evs')))
      else (ReturnsUndefined, []))"
  by pat_completeness auto
termination
  by (relation "measure (\<lambda>(aiModel, fetch, attempt). MAX_RETRIES + 1 - attempt)") auto

declare attempts.simps [simp del]

definition groqResponse :: "string \<Rightarrow> string \<Rightarrow> (nat \<Rightarrow> fetch_outcome) \<Rightarrow> result \<times> event list" where
  "groqResponse apiKey aiModel fetch =
     (if apiKey = [] \<or> trim apiKey = [] then
        (Throws (JsError False
           ''GROQ_API_KEY is not set. Please check your environment configuration.''), [])
      else attempts aiModel fetch 1)"


text \<open>
  Two responses for the examples: a success whose body holds the content \<open>c\<close>, and an error
  with a status and a body text, whose body is no JSON.
\<close>

definition okResponse :: "string \<Rightarrow> response" where
  "okResponse c = \<lparr> status = 200, responseText = Inr c, content = Inr c \<rparr>"

definition errorResponse :: "nat \<Rightarrow> string \<Rightarrow> response" where
  "errorResponse code body =
     \<lparr> status = code, responseText = Inr body,
       content = Inl (JsError False ''JSON Parse error: Unexpected character'') \<rparr>"


section \<open>Facts about the string operations\<close>

lemma split_go_not_Nil: "split_go sep cur s \<noteq> []"
  by (induction sep cur s rule: split_go.induct) auto

lemma split_not_Nil: "sep \<noteq> [] \<Longrightarrow> split sep s \<noteq> []"
  by (simp add: split_def split_go_not_Nil)

lemma hd_split_go: "sep \<noteq> [] \<Longrightarrow> hd (split_go sep cur s) = cur @ before sep s"
  by (induction sep cur s rule: split_go.induct) auto

lemma hd_split: "sep \<noteq> [] \<Longrightarrow> hd (split sep s) = before sep s"
  by (simp add: split_def hd_split_go)

lemma before_prefix: "prefix (before sep s) s"
  by (induction s) auto

lemma before_absent: "\<not> sublist sep s \<Longrightarrow> before sep s = s"
  by (induction s) (auto simp: sublist_Cons_right)

lemma before_present: "sublist sep s \<Longrightarrow> \<exists>r. s = before sep s @ sep @ r"
proof (induction s)
  case Nil
  then show ?case by simp
next
  case (Cons c cs)
  show ?case
  proof (cases "prefix sep (c # cs)")
    case True
    then show ?thesis by (auto simp: prefix_def)
  next
    case False
    with Cons.prems have "sublist sep cs" by (simp add: sublist_Cons_right)
    with Cons.IH obtain r where "cs = before sep cs @ sep @ r" by blast
    with False show ?thesis by auto
  qed
qed

lemma before_first: "prefix (p @ sep) s \<Longrightarrow> length (before sep s) \<le> length p"
proof (induction s arbitrary: p)
  case Nil
  then show ?case by simp
next
  case (Cons c cs)
  show ?case
  proof (cases "prefix sep (c # cs)")
    case True
    then show ?thesis by simp
  next
    case False
    with Cons.prems obtain p' where p: "p = c # p'" and "prefix (p' @ sep) cs"
      by (cases p) auto
    with Cons.IH [of p'] False show ?thesis by simp
  qed
qed

lemma before_single: "before [c] s = takeWhile (\<lambda>x. x \<noteq> c) s"
  by (induction s) auto


section \<open>Title derivation\<close>

text \<open>
  C9. For a non-empty generated body the title of the article is the text before the first
  period followed by a period when that text has at most 80 characters, and the first 60
  characters of the body followed by an ellipsis otherwise. The body
  "Short line. Rest of article..." gets the title "Short line.".
\<close>

theorem title_derivation:
  "generatedContent \<noteq> [] \<Longrightarrow> Generated_article article = Some generatedContent \<Longrightarrow>
   title (mapAiArticle selectedPerson article idx) =
     Some (let firstSentence = takeWhile (\<lambda>c. c \<noteq> CHR ''.'') generatedContent
           in if length firstSentence \<le> 80 then firstSentence @ ''.''
              else take 60 generatedContent @ ''...'')
   \<and> (generatedContent = ''Short line. Rest of article...'' \<longrightarrow>
        title (mapAiArticle selectedPerson article idx) = Some ''Short line.'')"
  by (auto simp: mapAiArticle_def deriveTitle_def or_else_def hd_split before_single Let_def)

theorem title_derivation_witness:
  "title (mapAiArticle ''Ada Lovelace''
     (blankArticle\<lparr>Generated_article := Some ''Short line. Rest of article...''\<rparr>) 0)
   = Some ''Short line.''"
  using title_derivation [of "''Short line. Rest of article...''"
      "blankArticle\<lparr>Generated_article := Some ''Short line. Rest of article...''\<rparr>"
      "''Ada Lovelace''" 0]
  by simp


section \<open>Summary derivation\<close>

lemma before_paragraph_empty:
  "before [CHR 0x0A, CHR 0x0A] g = [] \<Longrightarrow> before [CHR 0x0A] g = []"
  by (cases g) (auto split: if_splits)

lemma deriveSummary_eq:
  "g \<noteq> [] \<Longrightarrow>
   deriveSummary g =
     (let firstParagraph = before [CHR 0x0A, CHR 0x0A] g
      in if length firstParagraph > 200 then take 200 firstParagraph @ ''...''
         else firstParagraph)"
  using before_paragraph_empty [of g]
  by (auto simp: deriveSummary_def or_else_def hd_split Let_def)

text \<open>
  C4, as amended. For a non-empty generated body the summary of the article is the text
  before the first double newline; when that text is empty (the body starts with a double
  newline) the text before the first single newline is empty too, and the summary is the first
  200 characters of the body followed by an ellipsis; when it is longer than 200 characters
  the summary is its first 200 characters followed by an ellipsis. So for a body whose first
  paragraph is not empty and has at most 200 characters the summary is that paragraph.
\<close>

theorem summary_derivation:
  "g \<noteq> [] \<Longrightarrow> Generated_article article = Some g \<Longrightarrow>
   summary (mapAiArticle selectedPerson article idx) =
     Some (let firstParagraph = before [CHR 0x0A, CHR 0x0A] g
           in if firstParagraph = [] then take 200 g @ ''...''
              else if length firstParagraph > 200 then take 200 firstParagraph @ ''...''
              else firstParagraph)
   \<and> (before [CHR 0x0A, CHR 0x0A] g = [] \<longrightarrow> before [CHR 0x0A] g = [])
   \<and> (before [CHR 0x0A, CHR 0x0A] g \<noteq> [] \<and> length (before [CHR 0x0A, CHR 0x0A] g) \<le> 200 \<longrightarrow>
        summary (mapAiArticle selectedPerson article idx) = Some (before [CHR 0x0A, CHR 0x0A] g))"
  using before_paragraph_empty [of g]
  by (auto simp: mapAiArticle_def deriveSummary_eq or_else_def Let_def)

theorem summary_derivation_witness:
  "summary (mapAiArticle ''Ada Lovelace''
     (blankArticle\<lparr>Generated_article := Some ''First paragraph.\<newline>\<newline>Second paragraph.''\<rparr>) 0)
   = Some ''First paragraph.''"
  using summary_derivation [of "''First paragraph.\<newline>\<newline>Second paragraph.''"
      "blankArticle\<lparr>Generated_article := Some ''First paragraph.\<newline>\<newline>Second paragraph.''\<rparr>"
      "''Ada Lovelace''" 0]
  by simp

text \<open>
  The body that starts with a double newline: its first paragraph is empty, so has at most
  200 characters, and the summary is not that paragraph but the whole body and an ellipsis.
\<close>

theorem summary_derivation_counterexample:
  "before [CHR 0x0A, CHR 0x0A] ''\<newline>\<newline>Hello'' = []
   \<and> before [CHR 0x0A] ''\<newline>\<newline>Hello'' = []
   \<and> summary (mapAiArticle ''Ada Lovelace''
         (blankArticle\<lparr>Generated_article := Some ''\<newline>\<newline>Hello''\<rparr>) 0)
       = Some ''\<newline>\<newline>Hello...''"
  by (simp add: mapAiArticle_def deriveSummary_def or_else_def split_def Let_def)


section \<open>Titles of articles\<close>

lemma deriveTitle_not_Nil: "g \<noteq> [] \<Longrightarrow> deriveTitle g \<noteq> []"
  by (simp add: deriveTitle_def Let_def)

lemma generated_title:
  "\<exists>t. title (mapAiArticle selectedPerson article idx) = Some t \<and> t \<noteq> []"
  by (simp add: mapAiArticle_def or_else_def Let_def)

text \<open>
  C3, as amended. Every article made from a generated record has a non-empty title: the
  derived one for a non-empty body, the synthesized
  "<person>'s Perspective on Current Events" for an empty or absent body. An article made
  from a vendor record by \<open>mapApiArticleToNewsArticle\<close> has no title, and its originalTitle
  is the vendor's title, or the empty string when the vendor gave none: it has a non-empty
  title or originalTitle exactly when the vendor record has a non-empty title, and no
  fallback title is synthesized on this path.
\<close>

theorem article_title_invariant:
  "hasTitle (mapAiArticle selectedPerson article idx)
   \<and> (\<exists>t. title (mapAiArticle selectedPerson article idx) = Some t \<and> t \<noteq> [])
   \<and> (or_else (Generated_article article) [] = [] \<longrightarrow>
        title (mapAiArticle selectedPerson article idx) =
          Some (selectedPerson @ [CHR 0x27] @ ''s Perspective on Current Events''))
   \<and> title (mapApiArticleToNewsArticle apiArticle idx) = None
   \<and> originalTitle (mapApiArticleToNewsArticle apiArticle idx) =
         Some (or_else (ApiArticle.title apiArticle) [])
   \<and> hasTitle (mapApiArticleToNewsArticle apiArticle idx) = truthy (ApiArticle.title apiArticle)"
proof -
  have "hasTitle (mapApiArticleToNewsArticle apiArticle idx) = truthy (ApiArticle.title apiArticle)"
    by (auto simp: hasTitle_def truthy_def mapApiArticleToNewsArticle_def or_else_def
        split: option.splits)
  moreover have "hasTitle (mapAiArticle selectedPerson article idx)"
    using generated_title [of selectedPerson article idx]
    by (auto simp: hasTitle_def truthy_def)
  moreover have "or_else (Generated_article article) [] = [] \<longrightarrow>
        title (mapAiArticle selectedPerson article idx) =
          Some (selectedPerson @ [CHR 0x27] @ ''s Perspective on Current Events'')"
    by (simp add: mapAiArticle_def deriveTitle_def or_else_def Let_def)
  ultimately show ?thesis
    using generated_title [of selectedPerson article idx]
    by (simp add: mapApiArticleToNewsArticle_def)
qed

theorem article_title_invariant_witness:
  "title (mapAiArticle ''Ada Lovelace'' blankArticle 0) =
     Some ''Ada Lovelace's Perspective on Current Events''
   \<and> hasTitle (mapApiArticleToNewsArticle
         (blankApiArticle\<lparr>ApiArticle.title := Some ''Markets rally''\<rparr>) 0)"
  using article_title_invariant [of "''Ada Lovelace''" blankArticle 0
      "blankApiArticle\<lparr>ApiArticle.title := Some ''Markets rally''\<rparr>"]
  by (simp add: blankArticle_def blankApiArticle_def or_else_def truthy_def)

text \<open>A vendor record without a title: the article has neither title nor originalTitle.\<close>

theorem article_title_invariant_counterexample:
  "\<not> hasTitle (mapApiArticleToNewsArticle blankApiArticle 0)"
  by (simp add: hasTitle_def truthy_def mapApiArticleToNewsArticle_def blankApiArticle_def
      or_else_def)


section \<open>Normalizing a generated record\<close>

lemma length_newsImages: "length newsImages = 5"
  by (simp add: newsImages_def)

lemma distinct_newsImages: "distinct newsImages"
  unfolding newsImages_def by simp

lemma getRandomNewsImage_inj:
  "getRandomNewsImage i = getRandomNewsImage j \<longleftrightarrow> i mod 5 = j mod 5"
proof -
  have a: "i mod 5 < length newsImages" and b: "j mod 5 < length newsImages"
    by (simp_all add: length_newsImages)
  show ?thesis
    using nth_eq_iff_index_eq [OF distinct_newsImages a b]
    by (simp add: getRandomNewsImage_def length_newsImages)
qed

text \<open>
  C10. The image of an article made from a generated record is the entry of the rotation of
  five images at the record's position modulo five, whatever the record and the person: two
  articles have the same image exactly when their positions agree modulo five. The mapping
  reads nothing but the person, the position and the record's "Generated article",
  "Timestamp" and "Source URL": records that agree on these three give the same article at
  the same position for the same person.
\<close>

theorem normalization_deterministic:
  "imageUrl (mapAiArticle selectedPerson article idx) = Some (newsImages ! (idx mod 5))
   \<and> (idx mod 5 = idx' mod 5 \<longrightarrow>
        imageUrl (mapAiArticle selectedPerson article idx) =
        imageUrl (mapAiArticle selectedPerson' article' idx'))
   \<and> (imageUrl (mapAiArticle selectedPerson article idx) =
        imageUrl (mapAiArticle selectedPerson' article' idx') \<longrightarrow> idx mod 5 = idx' mod 5)
   \<and> (Generated_article article = Generated_article article' \<and>
        Timestamp article = Timestamp article' \<and> Source_URL article = Source_URL article' \<longrightarrow>
        mapAiArticle selectedPerson article idx = mapAiArticle selectedPerson article' idx)"
proof -
  have img: "\<And>p a i. imageUrl (mapAiArticle p a i) = Some (getRandomNewsImage i)"
    by (simp add: mapAiArticle_def Let_def)
  have pos: "imageUrl (mapAiArticle selectedPerson article idx) = Some (newsImages ! (idx mod 5))"
    by (simp add: img getRandomNewsImage_def length_newsImages)
  have same: "(imageUrl (mapAiArticle selectedPerson article idx) =
        imageUrl (mapAiArticle selectedPerson' article' idx')) = (idx mod 5 = idx' mod 5)"
    by (simp add: img getRandomNewsImage_inj)
  have reads: "Generated_article article = Generated_article article' \<and>
        Timestamp article = Timestamp article' \<and> Source_URL article = Source_URL article' \<longrightarrow>
        mapAiArticle selectedPerson article idx = mapAiArticle selectedPerson article' idx"
    by (simp add: mapAiArticle_def)
  show ?thesis
    using pos same reads by blast
qed

theorem normalization_deterministic_witness:
  "imageUrl (mapAiArticle ''Ada Lovelace'' (blankArticle\<lparr>Generated_article := Some ''One.''\<rparr>) 1) =
   imageUrl (mapAiArticle ''Alan Turing'' (blankArticle\<lparr>Generated_article := Some ''Two.''\<rparr>) 6)
   \<and> mapAiArticle ''Ada Lovelace'' (blankArticle\<lparr>Generated_article := Some ''One.''\<rparr>) 1 =
       mapAiArticle ''Ada Lovelace''
         (blankArticle\<lparr>Generated_article := Some ''One.'', source := Some ''Reuters''\<rparr>) 1"
  using normalization_deterministic [of "''Ada Lovelace''"
      "blankArticle\<lparr>Generated_article := Some ''One.''\<rparr>" 1 6 "''Alan Turing''"
      "blankArticle\<lparr>Generated_article := Some ''Two.''\<rparr>"]
    normalization_deterministic [of "''Ada Lovelace''"
      "blankArticle\<lparr>Generated_article := Some ''One.''\<rparr>" 1 1 "''Ada Lovelace''"
      "blankArticle\<lparr>Generated_article := Some ''One.'', source := Some ''Reuters''\<rparr>"]
  by simp


section \<open>The retry loop\<close>

lemma attempts_Continue:
  "attempt \<le> MAX_RETRIES \<Longrightarrow> oneAttempt aiModel (fetch attempt) attempt = (Continue, evs) \<Longrightarrow>
   attempts aiModel fetch attempt =
     (fst (attempts aiModel fetch (attempt + 1)), evs @ snd (attempts aiModel fetch (attempt + 1)))"
  by (subst attempts.simps) (simp split: prod.splits)

lemma attempts_Return:
  "attempt \<le> MAX_RETRIES \<Longrightarrow> oneAttempt aiModel (fetch attempt) attempt = (Return m c, evs) \<Longrightarrow>
   attempts aiModel fetch attempt = (Returns m c, evs)"
  by (subst attempts.simps) simp

lemma attempts_Throw:
  "attempt \<le> MAX_RETRIES \<Longrightarrow> oneAttempt aiModel (fetch attempt) attempt = (Throw e, evs) \<Longrightarrow>
   attempts aiModel fetch attempt = (Throws e, evs)"
  by (subst attempts.simps) simp

lemma oneAttempt_503_retry:
  "attempt < MAX_RETRIES \<Longrightarrow> status r = 503 \<Longrightarrow> responseText r = Inr t \<Longrightarrow>
   oneAttempt aiModel (Resolves r) attempt = (Continue, [Fetch, Wait (RETRY_DELAY * attempt)])"
  by (simp add: oneAttempt_def tryBlock_def ok_def)

lemma oneAttempt_503_last:
  "status r = 503 \<Longrightarrow> responseText r = Inr t \<Longrightarrow>
   oneAttempt aiModel (Resolves r) MAX_RETRIES =
     (Throw (JsError False
        (''Groq service is temporarily unavailable. Please try again in a few minutes. (Error: ''
          @ String_of_nat 503 @ '' - '' @ t @ '')'')), [Fetch])"
  by (simp add: oneAttempt_def tryBlock_def ok_def catchBlock_def)

lemma oneAttempt_success:
  "ok r \<Longrightarrow> content r = Inr c \<Longrightarrow> oneAttempt aiModel (Resolves r) attempt = (Return aiModel c, [Fetch])"
  by (simp add: oneAttempt_def tryBlock_def)

text \<open>
  The loop never ends without a result: in the last round neither the \<open>try\<close> block nor
  the \<open>catch\<close> clause continues, so \<open>groqResponse\<close> returns the pair or throws.
\<close>

lemma oneAttempt_last_not_Continue:
  "fst (oneAttempt aiModel outcome MAX_RETRIES) \<noteq> Continue"
  by (auto simp: oneAttempt_def tryBlock_def catchBlock_def
      split: fetch_outcome.splits sum.splits prod.splits completion.splits)

lemma attempts_last_not_undefined:
  "fst (attempts aiModel fetch MAX_RETRIES) \<noteq> ReturnsUndefined"
  using oneAttempt_last_not_Continue [of aiModel "fetch MAX_RETRIES"]
  by (subst attempts.simps) (auto split: prod.splits completion.splits)

lemma attempts_not_undefined:
  "attempt \<le> MAX_RETRIES \<Longrightarrow> fst (attempts aiModel fetch attempt) \<noteq> ReturnsUndefined"
proof (induction "MAX_RETRIES - attempt" arbitrary: attempt)
  case 0
  then have "attempt = MAX_RETRIES" by simp
  then show ?case by (simp add: attempts_last_not_undefined)
next
  case (Suc n)
  then have "attempt + 1 \<le> MAX_RETRIES" and "n = MAX_RETRIES - (attempt + 1)" by simp_all
  with Suc.hyps(1) have "fst (attempts aiModel fetch (attempt + 1)) \<noteq> ReturnsUndefined"
    by blast
  with Suc.prems show ?case
    by (subst attempts.simps) (auto split: prod.splits completion.splits)
qed

lemma groqResponse_not_undefined: "fst (groqResponse apiKey aiModel fetch) \<noteq> ReturnsUndefined"
  using attempts_not_undefined [of 1 aiModel fetch]
  by (simp add: groqResponse_def MAX_RETRIES_def)

text \<open>
  C2. With a credential, when the endpoint answers the first and the second request with
  status 503: if it answers the third with a success status and a body that holds the
  content, the client returns the model and that content after three requests and exactly
  two waits, of RETRY_DELAY * 1 and RETRY_DELAY * 2 milliseconds; if it answers the third
  with status 503 too, the client makes exactly three requests and then throws the error
  "Groq service is temporarily unavailable ...", which embeds the status and the body, and
  makes no fourth request.
\<close>

theorem retry_on_503:
  assumes key: "apiKey \<noteq> []" "trim apiKey \<noteq> []"
    and first: "fetch 1 = Resolves r1" "status r1 = 503" "responseText r1 = Inr t1"
    and second: "fetch 2 = Resolves r2" "status r2 = 503" "responseText r2 = Inr t2"
    and third: "fetch 3 = Resolves r3"
  shows "(ok r3 \<and> content r3 = Inr c \<longrightarrow>
            groqResponse apiKey aiModel fetch =
              (Returns aiModel c,
               [Fetch, Wait (RETRY_DELAY * 1), Fetch, Wait (RETRY_DELAY * 2), Fetch]))
       \<and> (status r3 = 503 \<and> responseText r3 = Inr t3 \<longrightarrow>
            groqResponse apiKey aiModel fetch =
              (Throws (JsError False
                 (''Groq service is temporarily unavailable. Please try again in a few minutes. (Error: 503 - ''
                   @ t3 @ '')'')),
               [Fetch, Wait (RETRY_DELAY * 1), Fetch, Wait (RETRY_DELAY * 2), Fetch]))"
proof -
  have one: "oneAttempt aiModel (fetch 1) 1 = (Continue, [Fetch, Wait (RETRY_DELAY * 1)])"
    using first by (simp add: oneAttempt_503_retry MAX_RETRIES_def)
  have two: "oneAttempt aiModel (fetch 2) 2 = (Continue, [Fetch, Wait (RETRY_DELAY * 2)])"
    using second by (simp add: oneAttempt_503_retry MAX_RETRIES_def)
  have sums: "(1::nat) + 1 = 2" "(2::nat) + 1 = 3"
    by simp_all
  have start1: "attempts aiModel fetch 1 =
      (fst (attempts aiModel fetch 2), [Fetch, Wait (RETRY_DELAY * 1)] @ snd (attempts aiModel fetch 2))"
    using attempts_Continue [of 1 aiModel fetch, OF _ one] unfolding sums
    by (simp add: MAX_RETRIES_def)
  have start2: "attempts aiModel fetch 2 =
      (fst (attempts aiModel fetch 3), [Fetch, Wait (RETRY_DELAY * 2)] @ snd (attempts aiModel fetch 3))"
    using attempts_Continue [of 2 aiModel fetch, OF _ two] unfolding sums
    by (simp add: MAX_RETRIES_def)
  have start: "attempts aiModel fetch 1 =
      (fst (attempts aiModel fetch 3),
       [Fetch, Wait (RETRY_DELAY * 1), Fetch, Wait (RETRY_DELAY * 2)] @ snd (attempts aiModel fetch 3))"
    unfolding start1 start2 by simp
  have good: "attempts aiModel fetch 3 = (Returns aiModel c, [Fetch])"
    if "ok r3" "content r3 = Inr c"
    using attempts_Return [of 3 aiModel fetch aiModel c "[Fetch]"] oneAttempt_success [OF that] third
    by (simp add: MAX_RETRIES_def)
  have digits: "String_of_nat 503 = ''503''"
    by (simp add: String_of_nat.simps digit_def)
  have bad: "attempts aiModel fetch 3 =
      (Throws (JsError False
         (''Groq service is temporarily unavailable. Please try again in a few minutes. (Error: 503 - ''
           @ t3 @ '')'')), [Fetch])"
    if "status r3 = 503" "responseText r3 = Inr t3"
    using attempts_Throw [of 3 aiModel fetch _ "[Fetch]"] oneAttempt_503_last [OF that, of aiModel] third
    by (simp add: MAX_RETRIES_def digits)
  show ?thesis
    using key start good bad by (simp add: groqResponse_def)
qed


theorem retry_on_503_witness:
  "groqResponse ''gsk_test'' ''llama3-8b-8192''
     (\<lambda>n. if n < 3 then Resolves (errorResponse 503 ''busy'') else Resolves (okResponse ''[]''))
   = (Returns ''llama3-8b-8192'' ''[]'', [Fetch, Wait 2000, Fetch, Wait 4000, Fetch])
   \<and> groqResponse ''gsk_test'' ''llama3-8b-8192'' (\<lambda>n. Resolves (errorResponse 503 ''busy''))
   = (Throws (JsError False
        ''Groq service is temporarily unavailable. Please try again in a few minutes. (Error: 503 - busy)''),
      [Fetch, Wait 2000, Fetch, Wait 4000, Fetch])"
  using retry_on_503 [where apiKey = "''gsk_test''" and aiModel = "''llama3-8b-8192''"
      and fetch = "\<lambda>n. if n < 3 then Resolves (errorResponse 503 ''busy'') else Resolves (okResponse ''[]'')"
      and ?r1.0 = "errorResponse 503 ''busy''" and ?t1.0 = "''busy''"
      and ?r2.0 = "errorResponse 503 ''busy''" and ?t2.0 = "''busy''"
      and ?r3.0 = "okResponse ''[]''" and c = "''[]''"]
    retry_on_503 [where apiKey = "''gsk_test''" and aiModel = "''llama3-8b-8192''"
      and fetch = "\<lambda>n. Resolves (errorResponse 503 ''busy'')"
      and ?r1.0 = "errorResponse 503 ''busy''" and ?t1.0 = "''busy''"
      and ?r2.0 = "errorResponse 503 ''busy''" and ?t2.0 = "''busy''"
      and ?r3.0 = "errorResponse 503 ''busy''" and ?t3.0 = "''busy''"]
  by (simp add: okResponse_def errorResponse_def ok_def trim_def isWhiteSpace_def RETRY_DELAY_def)

lemma other_status_without_fetch:
  assumes "attempt \<le> MAX_RETRIES" and "fetch attempt = Resolves r"
    and "\<not> ok r" and "status r \<noteq> 503" and "responseText r = Inr t"
    and "\<not> sublist ''fetch'' (''Groq API error: '' @ String_of_nat (status r) @ '' - '' @ t)"
  shows "attempts aiModel fetch attempt =
    (Throws (JsError False (''Groq API error: '' @ String_of_nat (status r) @ '' - '' @ t)), [Fetch])"
proof -
  from assms(2-6) have "oneAttempt aiModel (fetch attempt) attempt =
      (Throw (JsError False (''Groq API error: '' @ String_of_nat (status r) @ '' - '' @ t)), [Fetch])"
    by (simp add: oneAttempt_def tryBlock_def catchBlock_def)
  with assms(1) show ?thesis by (rule attempts_Throw)
qed

text \<open>
  C7. The first request is answered with status 500 and the body "fetch failed". The error
  "Groq API error: 500 - fetch failed" is thrown inside the \<open>try\<close> block, so the
  \<open>catch\<close> clause of the same round receives it; its message includes "fetch" and two
  attempts remain, so the client waits RETRY_DELAY * 1 milliseconds and sends a second
  request, whose success it returns. (An error status other than 503 whose message does not
  include "fetch" ends the run at once, \<open>other_status_without_fetch\<close>.)
\<close>

theorem other_status_with_fetch_in_body_is_retried:
  "groqResponse ''gsk_test'' ''llama3-8b-8192''
     (\<lambda>n. if n = 1 then Resolves (errorResponse 500 ''fetch failed'') else Resolves (okResponse ''[]''))
   = (Returns ''llama3-8b-8192'' ''[]'', [Fetch, Wait 2000, Fetch])"
  by code_simp

text \<open>
  C8. Without a configured credential, or with one that is empty or only white space, the
  client throws "GROQ_API_KEY is not set ..." and has done nothing before: no request, no
  wait. A run that does anything at all has a configured credential that is not blank.
\<close>

theorem missing_credential:
  "(configured = None \<or> trim (groqApiKey configured) = [] \<longrightarrow>
      groqResponse (groqApiKey configured) aiModel fetch =
        (Throws (JsError False
           ''GROQ_API_KEY is not set. Please check your environment configuration.''), []))
   \<and> (snd (groqResponse (groqApiKey configured) aiModel fetch) \<noteq> [] \<longrightarrow>
        (\<exists>k. configured = Some k \<and> k \<noteq> [] \<and> trim k \<noteq> []))"
  by (cases configured) (auto simp: groqResponse_def groqApiKey_def)

theorem missing_credential_witness:
  "groqResponse (groqApiKey None) ''llama3-8b-8192'' (\<lambda>n. Resolves (okResponse ''[]'')) =
     (Throws (JsError False
        ''GROQ_API_KEY is not set. Please check your environment configuration.''), [])
   \<and> groqResponse (groqApiKey (Some '' '')) ''llama3-8b-8192'' (\<lambda>n. Resolves (okResponse ''[]'')) =
     (Throws (JsError False
        ''GROQ_API_KEY is not set. Please check your environment configuration.''), [])"
  using missing_credential [of None "''llama3-8b-8192''" "\<lambda>n. Resolves (okResponse ''[]'')"]
    missing_credential [of "Some '' ''" "''llama3-8b-8192''" "\<lambda>n. Resolves (okResponse ''[]'')"]
  by (simp add: groqApiKey_def trim_def isWhiteSpace_def)


section \<open>The cleaned text\<close>

lemma sanitize_no_controls: "c \<in> set (sanitize raw) \<Longrightarrow> 0x20 \<le> (of_char c :: nat)"
  by (auto simp: sanitize_def removeControls_def Let_def)

lemma removeFences_head:
  assumes "\<not> prefix ''```'' s" and "removeFences ''```'' s = x # r"
  shows "\<exists>t. s = x # t \<and> r = removeFences ''```'' t"
  using assms by (cases s) (auto split: if_splits)

lemma removeFences_match:
  "prefix ''```'' s \<Longrightarrow> removeFences ''```'' s = removeFences ''```'' (dropNewline (drop 3 s))"
  by (cases s) (simp_all add: eval_nat_numeral)

lemma removeFences_no_match:
  "\<not> prefix fence (c # cs) \<Longrightarrow> removeFences fence (c # cs) = c # removeFences fence cs"
  by (simp only: removeFences.simps simp_thms if_False)

lemma removeFences_no_fence: "\<not> sublist ''```'' (removeFences ''```'' s)"
proof (induction s rule: measure_induct_rule [of length])
  case (less s)
  show ?case
  proof (cases s)
    case Nil
    then show ?thesis by simp
  next
    case (Cons c cs)
    show ?thesis
    proof (cases "prefix ''```'' (c # cs)")
      case True
      have "length (dropNewline (drop 3 s)) < length s"
        using length_dropNewline [of "drop 3 s"] Cons by simp
      from less.IH [OF this] removeFences_match [of s] True Cons show ?thesis
        by metis
    next
      case False
      have IH: "\<not> sublist ''```'' (removeFences ''```'' cs)"
        using less.IH [of cs] Cons by simp
      have eq: "removeFences ''```'' s = c # removeFences ''```'' cs"
        unfolding Cons by (rule removeFences_no_match [OF False])
      have "\<not> prefix ''```'' (c # removeFences ''```'' cs)"
      proof
        assume p: "prefix ''```'' (c # removeFences ''```'' cs)"
        then have c: "c = CHR 0x60" by simp
        from p obtain r where r: "removeFences ''```'' cs = CHR 0x60 # CHR 0x60 # r"
          by (auto simp: prefix_def)
        have np: "\<not> prefix ''```'' cs"
          using False c by (auto simp: prefix_def)
        from removeFences_head [OF np r] obtain t
          where t: "cs = CHR 0x60 # t" "CHR 0x60 # r = removeFences ''```'' t" by blast
        have np2: "\<not> prefix ''```'' t"
          using False c t by (auto simp: prefix_def)
        from removeFences_head [OF np2 t(2) [symmetric]] obtain t' where "t = CHR 0x60 # t'"
          by blast
        with t c False show False by simp
      qed
      with IH show ?thesis
        unfolding eq sublist_Cons_right by blast
    qed
  qed
qed

text \<open>
  C6. The raw text below holds a typed fence and newlines. The first pass removes the typed
  fence; no three backquotes are left in a row, so the second pass removes nothing; the
  removal of the control characters then takes the newline from between the backquotes and
  the cleaned text ends with the fence marker. (The cleaned text never holds a control
  character, \<open>sanitize_no_controls\<close>, and the text that leaves the second pass never
  holds a fence, \<open>removeFences_no_fence\<close>.)
\<close>

theorem fence_rebuilt_by_control_removal:
  "sanitize ''```json\<newline>[]\<newline>``\<newline>`'' = ''[]```''"
  by code_simp


section \<open>The decoded records\<close>

text \<open>
  A text that starts with a bracket decodes to an array or not at all, one that starts with a
  brace to an object or not at all: the machine keeps the kind of the outermost open frame
  until it finishes with a value of that kind.
\<close>

lemma rooted_simps:
  "rooted k (ExpectValue stack) = (stack \<noteq> [] \<and> frameKind (last stack) = k)"
  "rooted k (ArrayStart stack) = (frameKind (last (InArray [] # stack)) = k)"
  "rooted k (ArrayNext xs stack) = (frameKind (last (InArray xs # stack)) = k)"
  "rooted k (ObjectStart stack) = (frameKind (last (InObject [] [] # stack)) = k)"
  "rooted k (ObjectKey ms stack) = (frameKind (last (InObject ms [] # stack)) = k)"
  "rooted k (ObjectColon ms key stack) = (frameKind (last (InObject ms key # stack)) = k)"
  "rooted k (ObjectNext ms stack) = (frameKind (last (InObject ms [] # stack)) = k)"
  "rooted k (Finished v) = (jsonKind v = k)"
  by (simp_all add: rooted_def)

lemma rooted_deliver:
  "rooted k (deliver v stack) =
     (if stack = [] then jsonKind v = k else frameKind (last stack) = k)"
proof (cases stack)
  case Nil
  then show ?thesis by (simp add: rooted_simps)
next
  case (Cons f fs)
  then show ?thesis by (cases f) (simp_all add: rooted_simps)
qed

lemma rooted_startValue:
  "startValue stack t = Some st' \<Longrightarrow> stack \<noteq> [] \<Longrightarrow> frameKind (last stack) = k \<Longrightarrow>
   rooted k st'"
  by (cases t) (auto simp: rooted_deliver rooted_simps)

lemma rooted_step:
  assumes "rooted k st" and "step st t = Some st'"
  shows "rooted k st'"
proof (cases st)
  case (ExpectValue stack)
  with assms show ?thesis
    by (auto simp: rooted_simps intro: rooted_startValue)
next
  case (ArrayStart stack)
  show ?thesis
  proof (cases "t = RBracket")
    case True
    with assms ArrayStart show ?thesis
      by (auto simp: rooted_deliver rooted_simps)
  next
    case False
    with assms ArrayStart have "startValue (InArray [] # stack) t = Some st'" by simp
    from rooted_startValue [OF this] assms(1) ArrayStart show ?thesis
      by (simp add: rooted_simps)
  qed
next
  case (ArrayNext xs stack)
  with assms show ?thesis
    by (auto simp: rooted_deliver rooted_simps split: if_splits)
next
  case (ObjectStart stack)
  with assms show ?thesis
    by (cases t) (auto simp: rooted_deliver rooted_simps)
next
  case (ObjectKey ms stack)
  with assms show ?thesis
    by (cases t) (auto simp: rooted_simps)
next
  case (ObjectColon ms key stack)
  with assms show ?thesis
    by (auto simp: rooted_simps split: if_splits)
next
  case (ObjectNext ms stack)
  with assms show ?thesis
    by (auto simp: rooted_deliver rooted_simps split: if_splits)
next
  case (Finished v)
  with assms show ?thesis by simp
qed

lemma rooted_run: "rooted k st \<Longrightarrow> run st ts = Some v \<Longrightarrow> jsonKind v = k"
proof (induction ts arbitrary: st)
  case Nil
  then show ?case by (cases st) (auto simp: rooted_def)
next
  case (Cons t ts)
  then show ?case
    by (auto split: option.splits dest: rooted_step)
qed

lemma JSON_parse_bracket:
  assumes "prefix ''['' s" and "JSON_parse s = Some v"
  shows "\<exists>xs. v = JArray xs"
proof -
  from assms(1) obtain cs where s: "s = CHR ''['' # cs" by (auto simp: prefix_def)
  with assms(2) obtain ts where "tokenize cs = Some ts" and "run (ArrayStart []) ts = Some v"
    by (auto simp: JSON_parse_def isJsonSpace_def split: option.splits)
  moreover have "rooted ArrayKind (ArrayStart [])" by (simp add: rooted_simps)
  ultimately have "jsonKind v = ArrayKind" by (blast dest: rooted_run)
  then show ?thesis by (cases v) auto
qed

lemma JSON_parse_brace:
  assumes "prefix ''{'' s" and "JSON_parse s = Some v"
  shows "\<exists>ms. v = JObject ms"
proof -
  from assms(1) obtain cs where s: "s = CHR ''{'' # cs" by (auto simp: prefix_def)
  with assms(2) obtain ts where "tokenize cs = Some ts" and "run (ObjectStart []) ts = Some v"
    by (auto simp: JSON_parse_def isJsonSpace_def split: option.splits)
  moreover have "rooted ObjectKind (ObjectStart [])" by (simp add: rooted_simps)
  ultimately have "jsonKind v = ObjectKind" by (blast dest: rooted_run)
  then show ?thesis by (cases v) auto
qed

lemma parseAiResponse_cases:
  "(\<exists>xs. prefix ''['' (sanitize raw) \<and> JSON_parse (sanitize raw) = Some (JArray xs) \<and>
          parseAiResponse raw = xs)
   \<or> (\<exists>ms. prefix ''{'' (sanitize raw) \<and> JSON_parse (sanitize raw) = Some (JObject ms) \<and>
          parseAiResponse raw = [JObject ms])
   \<or> ((\<not> prefix ''['' (sanitize raw) \<and> \<not> prefix ''{'' (sanitize raw)
        \<or> JSON_parse (sanitize raw) = None)
       \<and> parseAiResponse raw = [plainText (sanitize raw)])"
proof (cases "prefix ''['' (sanitize raw) \<or> prefix ''{'' (sanitize raw)")
  case False
  then show ?thesis by (simp add: parseAiResponse_def Let_def)
next
  case True
  show ?thesis
  proof (cases "JSON_parse (sanitize raw)")
    case None
    with True show ?thesis by (simp add: parseAiResponse_def Let_def)
  next
    case (Some v)
    from True show ?thesis
    proof
      assume b: "prefix ''['' (sanitize raw)"
      from JSON_parse_bracket [OF b Some] obtain xs where "v = JArray xs" by blast
      with b Some show ?thesis by (simp add: parseAiResponse_def Let_def)
    next
      assume b: "prefix ''{'' (sanitize raw)"
      from JSON_parse_brace [OF b Some] obtain ms where "v = JObject ms" by blast
      with b Some show ?thesis by (simp add: parseAiResponse_def Let_def)
    qed
  qed
qed

text \<open>
  C1, as amended. For a non-empty raw text the effect sets the records, without an error,
  and one of three cases holds. The cleaned text starts with a bracket and decodes to an
  array: the records are the elements of the array, as many as it has, none for the empty
  array. The cleaned text starts with a brace and decodes to an object: the object is the
  one record. The cleaned text starts with neither, or does not decode: the one record is
  \<open>{ "Generated article": cleaned text }\<close>. So there is at least one record unless the
  cleaned text is an empty array.
\<close>

theorem response_parser:
  assumes "raw \<noteq> []"
  shows "\<exists>records. aiArticlesOf (Some raw) = Some records
     \<and> ((\<exists>xs. prefix ''['' (sanitize raw) \<and> JSON_parse (sanitize raw) = Some (JArray xs) \<and>
              records = xs)
        \<or> (\<exists>ms. prefix ''{'' (sanitize raw) \<and> JSON_parse (sanitize raw) = Some (JObject ms) \<and>
              records = [JObject ms])
        \<or> ((\<not> prefix ''['' (sanitize raw) \<and> \<not> prefix ''{'' (sanitize raw)
             \<or> JSON_parse (sanitize raw) = None)
            \<and> records = [plainText (sanitize raw)]))
     \<and> (records = [] \<longleftrightarrow>
          prefix ''['' (sanitize raw) \<and> JSON_parse (sanitize raw) = Some (JArray []))"
proof -
  have "parseAiResponse raw = [] \<longleftrightarrow>
          prefix ''['' (sanitize raw) \<and> JSON_parse (sanitize raw) = Some (JArray [])"
    using parseAiResponse_cases [of raw] by auto
  with parseAiResponse_cases [of raw] assms show ?thesis
    by (simp add: aiArticlesOf_def)
qed

theorem response_parser_witness:
  "aiArticlesOf (Some ''```json\<newline>[{\"Generated article\": \"One.\"}, {}]\<newline>```'') =
     Some [JObject [(''Generated article'', JString ''One.'')], JObject []]
   \<and> aiArticlesOf (Some ''{\"Generated article\": \"One.\"}'') =
     Some [JObject [(''Generated article'', JString ''One.'')]]
   \<and> aiArticlesOf (Some ''Plain words.'') = Some [plainText ''Plain words.'']"
proof -
  have a: "sanitize ''```json\<newline>[{\"Generated article\": \"One.\"}, {}]\<newline>```'' =
      ''[{\"Generated article\": \"One.\"}, {}]''"
    by code_simp
  have a': "JSON_parse ''[{\"Generated article\": \"One.\"}, {}]'' =
      Some (JArray [JObject [(''Generated article'', JString ''One.'')], JObject []])"
    by code_simp
  have b: "sanitize ''{\"Generated article\": \"One.\"}'' = ''{\"Generated article\": \"One.\"}''"
    by code_simp
  have b': "JSON_parse ''{\"Generated article\": \"One.\"}'' =
      Some (JObject [(''Generated article'', JString ''One.'')])"
    by code_simp
  have c: "sanitize ''Plain words.'' = ''Plain words.''"
    by code_simp
  show ?thesis
    using response_parser [of "''```json\<newline>[{\"Generated article\": \"One.\"}, {}]\<newline>```''"]
      response_parser [of "''{\"Generated article\": \"One.\"}''"]
      response_parser [of "''Plain words.''"]
    unfolding a a' b b' c by auto
qed

text \<open>
  The empty array gives no record. A text that is an array after white space, which the
  removal of a leading control character can leave, is taken as plain text. For the empty
  raw text the effect does not run.
\<close>

theorem response_parser_counterexample:
  "aiArticlesOf (Some ''[]'') = Some []
   \<and> JSON_parse '' [{}]'' = Some (JArray [JObject []])
   \<and> aiArticlesOf (Some (CHR 0x01 # '' [{}]'')) = Some [plainText '' [{}]'']
   \<and> aiArticlesOf (Some []) = None"
  by code_simp


section \<open>The perspective text\<close>

lemma sublist_skip: "sublist xs ys \<Longrightarrow> sublist xs (ps @ ys)"
  by (metis sublist_append)

lemma sublist_here: "sublist xs (xs @ ss)"
  by simp

lemma templates_interpolate:
  "sublist t (AlbertEinstein t s)" "sublist s (AlbertEinstein t s)"
  "sublist t (OprahWinfrey t s)" "sublist s (OprahWinfrey t s)"
  "sublist t (ElonMusk t s)" "sublist s (ElonMusk t s)"
  "sublist t (Default t s)" "sublist s (Default t s)"
  unfolding AlbertEinstein_def OprahWinfrey_def ElonMusk_def Default_def
  by (rule sublist_here sublist_skip)+

lemma getProperty_cases:
  "getProperty articleTemplates person =
     (if person = ''Albert Einstein'' then Own AlbertEinstein
      else if person = ''Oprah Winfrey'' then Own OprahWinfrey
      else if person = ''Elon Musk'' then Own ElonMusk
      else if person = ''Default'' then Own Default
      else if person \<in> set objectPrototype then Inherited person
      else Undefined)"
  by (simp add: getProperty_def articleTemplates_def)

lemma renderer_on_other_names:
  assumes "person \<notin> set objectPrototype"
  shows "\<exists>text. generateFullAIArticle person t s = Rendered text \<and> sublist t text \<and> sublist s text"
  using assms
  by (auto simp: generateFullAIArticle_def getProperty_cases templates_interpolate)

lemma renderer_default:
  assumes "person \<notin> set objectPrototype" and "person \<notin> fst ` set articleTemplates"
  shows "generateFullAIArticle person t s = Rendered (Default t s)"
proof -
  from assms(2) have "person \<noteq> ''Albert Einstein''" "person \<noteq> ''Oprah Winfrey''"
    "person \<noteq> ''Elon Musk''" "person \<noteq> ''Default''"
    by (auto simp: articleTemplates_def)
  with assms(1) show ?thesis
    by (simp add: generateFullAIArticle_def getProperty_cases)
qed

text \<open>
  C5. The person name "toString" is not in the template table, but the table inherits a
  property of that name from \<open>Object.prototype\<close>; it is truthy, so the default template
  is not taken and the call goes to \<open>Object.prototype.toString\<close>, not to a template:
  what comes back is not the default template's text with the title and the summary.
  (For every name outside \<open>Object.prototype\<close> the text holds the title and the summary,
  \<open>renderer_on_other_names\<close>, and a name outside the table gets the default template,
  \<open>renderer_default\<close>.)
\<close>

theorem inherited_property_is_called:
  "generateFullAIArticle ''toString'' ''T'' ''S'' = InheritedCalled ''toString''
   \<and> generateFullAIArticle ''toString'' ''T'' ''S'' \<noteq> Rendered (Default ''T'' ''S'')"
  by (simp add: generateFullAIArticle_def getProperty_def articleTemplates_def objectPrototype_def)

end
